theory Spec2Isabelle
  imports Complex_Main
begin

section \<open>Configuration (config.py)\<close>

text \<open>
  The module \<open>config\<close> is a set of named constants read by every component.  Only the
  tunables that the decision core reads are kept.  Python \<open>str\<close> values are modelled
  as \<open>string\<close>; the OCR engine is restricted to an ASCII whitelist, so the characters
  the core handles are ASCII.  Python floats are modelled as exact rationals.
\<close>

record config =
  MIN_PLATE_LENGTH :: nat
  MAX_PLATE_LENGTH :: nat
  OCR_CONFIG_PSM7 :: string
  OCR_CONFIG_PSM8 :: string
  DUPLICATE_TIME_WINDOW :: rat
  PERFORMANCE_BUFFER_SIZE :: nat
  AUTO_SAVE_THRESHOLD :: rat

definition default_config :: config where
  "default_config =
     \<lparr> MIN_PLATE_LENGTH = 4,
       MAX_PLATE_LENGTH = 10,
       OCR_CONFIG_PSM7 = ''--psm 7 -c tessedit_char_whitelist=ABCDEFGHIJKLMNOPQRSTUVWXYZ0123456789'',
       OCR_CONFIG_PSM8 = ''--psm 8 -c tessedit_char_whitelist=ABCDEFGHIJKLMNOPQRSTUVWXYZ0123456789'',
       DUPLICATE_TIME_WINDOW = 5,
       PERFORMANCE_BUFFER_SIZE = 30,
       AUTO_SAVE_THRESHOLD = 8 / 10 \<rparr>"

section \<open>Plate validation (SmartOCR.validate\_plate)\<close>

text \<open>
  \<^verbatim>\<open>
  def validate_plate(self, text):
      if len(text) < config.MIN_PLATE_LENGTH or len(text) > config.MAX_PLATE_LENGTH:
          return False
      return bool(re.match(r'^[A-Z0-9]+$', text))
  \<close>
  The regular expression is matched the way Python's \<open>re.match\<close> does it: the match
  starts at position 0, the class \<open>[A-Z0-9]\<close> is repeated one or more times, and
  \<open>$\<close> (without \<open>re.MULTILINE\<close>) holds at the end of the string and also just before
  a newline that is the last character of the string.
\<close>

definition ord :: "char \<Rightarrow> nat" where
  "ord c = of_char c"

definition is_upper_or_digit :: "char \<Rightarrow> bool" where
  "is_upper_or_digit c =
     ((ord CHR ''A'' \<le> ord c \<and> ord c \<le> ord CHR ''Z'') \<or>
      (ord CHR ''0'' \<le> ord c \<and> ord c \<le> ord CHR ''9''))"

definition newline :: char where
  "newline = CHR 0x0A"

definition dollar_at :: "string \<Rightarrow> nat \<Rightarrow> bool" where
  "dollar_at s i = (i = length s \<or> (Suc i = length s \<and> s ! i = newline))"

definition re_match_plate :: "string \<Rightarrow> bool" where
  "re_match_plate s =
     (\<exists>i \<in> set [1 ..< Suc (length (takeWhile is_upper_or_digit s))]. dollar_at s i)"

definition validate_plate :: "config \<Rightarrow> string \<Rightarrow> bool" where
  "validate_plate cfg text =
     (if length text < MIN_PLATE_LENGTH cfg \<or> length text > MAX_PLATE_LENGTH cfg then False
      else re_match_plate text)"

section \<open>Result fusion (SmartOCR.extract\_text)\<close>

text \<open>
  Calls into OpenCV and Tesseract either return a value or raise; every raise inside
  the \<open>try\<close> block of \<open>extract_text\<close> is caught by \<open>except Exception: continue\<close>.
\<close>

datatype 'a outcome = Raises | Returns 'a

text \<open>An OCR reading: text, confidence and the label of the preprocessing method.\<close>

type_synonym reading = "string \<times> rat \<times> string"

text \<open>The dictionary returned by \<open>pytesseract.image_to_data\<close>, keys \<open>text\<close> and \<open>conf\<close>.\<close>

record ocr_data =
  data_text :: "string list"
  data_conf :: "int list"

text \<open>The three static methods of \<open>PlatePreprocessor\<close>; their bodies are OpenCV calls.\<close>

record ('img, 'pimg) preprocessor =
  adaptive_threshold :: "'img \<Rightarrow> 'pimg outcome"
  otsu_threshold :: "'img \<Rightarrow> 'pimg outcome"
  clahe_enhance :: "'img \<Rightarrow> 'pimg outcome"

text \<open>
  \<^verbatim>\<open>
  for i, word in enumerate(data['text']):
      if int(data['conf'][i]) > 0:
          text += word
          confidences.append(int(data['conf'][i]))
  \<close>
  The entries of \<open>conf\<close> are numbers; the model holds their \<open>int(...)\<close> values.
  Reading \<open>data['conf'][i]\<close> beyond the end of the list raises \<open>IndexError\<close>.
\<close>

fun collect_tokens ::
  "string list \<Rightarrow> int list \<Rightarrow> nat \<Rightarrow> string \<Rightarrow> int list \<Rightarrow> (string \<times> int list) outcome"
where
  "collect_tokens [] conf i text confidences = Returns (text, confidences)"
| "collect_tokens (word # ws) conf i text confidences =
     (if i < length conf then
        (if conf ! i > 0
         then collect_tokens ws conf (Suc i) (text @ word) (confidences @ [conf ! i])
         else collect_tokens ws conf (Suc i) text confidences)
      else Raises)"

text \<open>\<open>text.strip().replace(" ", "").upper()\<close> on ASCII text.\<close>

definition is_space :: "char \<Rightarrow> bool" where
  "is_space c = ((9 \<le> ord c \<and> ord c \<le> 13) \<or> (28 \<le> ord c \<and> ord c \<le> 32))"

definition py_strip :: "string \<Rightarrow> string" where
  "py_strip s = rev (dropWhile is_space (rev (dropWhile is_space s)))"

definition py_remove_spaces :: "string \<Rightarrow> string" where
  "py_remove_spaces s = filter (\<lambda>c. c \<noteq> CHR '' '') s"

definition upper_char :: "char \<Rightarrow> char" where
  "upper_char c =
     (if ord CHR ''a'' \<le> ord c \<and> ord c \<le> ord CHR ''z'' then char_of (ord c - 32) else c)"

definition py_upper :: "string \<Rightarrow> string" where
  "py_upper s = map upper_char s"

definition clean_text :: "string \<Rightarrow> string" where
  "clean_text text = py_upper (py_remove_spaces (py_strip text))"

text \<open>\<open>sum(confidences) / len(confidences) if confidences else 0\<close>\<close>

definition avg_conf :: "int list \<Rightarrow> rat" where
  "avg_conf confidences =
     (if confidences \<noteq> [] then of_int (sum_list confidences) / of_nat (length confidences)
      else 0)"

text \<open>
  The body of the inner loop for one OCR configuration, after \<open>image_to_data\<close> has
  returned: \<open>Returns (Some r)\<close> when a reading is appended, \<open>Returns None\<close> when the
  text is empty or too short, \<open>Raises\<close> when the token loop raises.
\<close>

definition reading_of_data :: "config \<Rightarrow> string \<Rightarrow> ocr_data \<Rightarrow> reading option outcome" where
  "reading_of_data cfg method_name data =
     (case collect_tokens (data_text data) (data_conf data) 0 [] [] of
        Raises \<Rightarrow> Raises
      | Returns (text, confidences) \<Rightarrow>
          (let text' = clean_text text in
           if text' \<noteq> [] \<and> length text' \<ge> MIN_PLATE_LENGTH cfg
           then Returns (Some (text', avg_conf confidences / 100, method_name))
           else Returns None))"

text \<open>One (variant, configuration) combination: the OCR call followed by the token loop.\<close>

definition combination ::
  "config \<Rightarrow> ('pimg \<Rightarrow> string \<Rightarrow> ocr_data outcome) \<Rightarrow> string \<Rightarrow> 'pimg \<Rightarrow> string
     \<Rightarrow> reading option outcome"
where
  "combination cfg image_to_data method_name processed psm_config =
     (case image_to_data processed psm_config of
        Raises \<Rightarrow> Raises
      | Returns data \<Rightarrow> reading_of_data cfg method_name data)"

text \<open>
  The loop \<open>for psm_config in [config.OCR_CONFIG_PSM7, config.OCR_CONFIG_PSM8]\<close>.  It
  runs inside the \<open>try\<close> of the enclosing method loop: an exception leaves the loop
  with the readings appended so far, and the \<open>except\<close> clause goes on to the next method.
\<close>

fun psm_loop ::
  "config \<Rightarrow> ('pimg \<Rightarrow> string \<Rightarrow> ocr_data outcome) \<Rightarrow> string \<Rightarrow> 'pimg \<Rightarrow> string list
     \<Rightarrow> reading list \<Rightarrow> reading list"
where
  "psm_loop cfg image_to_data method_name processed [] results = results"
| "psm_loop cfg image_to_data method_name processed (psm_config # rest) results =
     (case combination cfg image_to_data method_name processed psm_config of
        Raises \<Rightarrow> results
      | Returns None \<Rightarrow> psm_loop cfg image_to_data method_name processed rest results
      | Returns (Some r) \<Rightarrow>
          psm_loop cfg image_to_data method_name processed rest (results @ [r]))"

text \<open>The loop \<open>for method_name, method_func in methods\<close> with its \<open>try\<close>/\<open>except\<close>.\<close>

fun method_loop ::
  "config \<Rightarrow> ('pimg \<Rightarrow> string \<Rightarrow> ocr_data outcome) \<Rightarrow> 'img
     \<Rightarrow> (string \<times> ('img \<Rightarrow> 'pimg outcome)) list \<Rightarrow> reading list \<Rightarrow> reading list"
where
  "method_loop cfg image_to_data plate_img [] results = results"
| "method_loop cfg image_to_data plate_img ((method_name, method_func) # rest) results =
     (case method_func plate_img of
        Raises \<Rightarrow> method_loop cfg image_to_data plate_img rest results
      | Returns processed \<Rightarrow>
          method_loop cfg image_to_data plate_img rest
            (psm_loop cfg image_to_data method_name processed
               [OCR_CONFIG_PSM7 cfg, OCR_CONFIG_PSM8 cfg] results))"

text \<open>
  Python's \<open>max(iterable, key=f)\<close> keeps the first item whose key is maximal: a later
  item replaces the current best only when its key is strictly greater.
\<close>

fun max_key_from :: "('a \<Rightarrow> 'k::linorder) \<Rightarrow> 'a \<Rightarrow> 'a list \<Rightarrow> 'a" where
  "max_key_from key best [] = best"
| "max_key_from key best (x # xs) =
     max_key_from key (if key x > key best then x else best) xs"

definition methods :: "('img, 'pimg) preprocessor \<Rightarrow> (string \<times> ('img \<Rightarrow> 'pimg outcome)) list" where
  "methods pre =
     [(''Adaptive'', adaptive_threshold pre),
      (''Otsu'', otsu_threshold pre),
      (''CLAHE'', clahe_enhance pre)]"

definition collect_results ::
  "config \<Rightarrow> ('img, 'pimg) preprocessor \<Rightarrow> ('pimg \<Rightarrow> string \<Rightarrow> ocr_data outcome) \<Rightarrow> 'img
     \<Rightarrow> reading list"
where
  "collect_results cfg pre image_to_data plate_img =
     method_loop cfg image_to_data plate_img (methods pre) []"

definition confidence_of :: "reading \<Rightarrow> rat" where
  "confidence_of x = fst (snd x)"

definition fuse :: "reading list \<Rightarrow> reading" where
  "fuse results =
     (case results of
        [] \<Rightarrow> ('''', 0, ''None'')
      | r # rs \<Rightarrow> max_key_from confidence_of r rs)"

definition extract_text ::
  "config \<Rightarrow> ('img, 'pimg) preprocessor \<Rightarrow> ('pimg \<Rightarrow> string \<Rightarrow> ocr_data outcome) \<Rightarrow> 'img
     \<Rightarrow> reading"
where
  "extract_text cfg pre image_to_data plate_img =
     fuse (collect_results cfg pre image_to_data plate_img)"

section \<open>Duplicate manager\<close>

text \<open>
  The deque \<open>self.detected\<close> holds (plate, time) pairs, oldest first.  \<open>time.time()\<close>
  is read once per call and passed in as \<open>current_time\<close>.
  \<^verbatim>\<open>
  while self.detected and current_time - self.detected[0][1] > config.DUPLICATE_TIME_WINDOW:
      self.detected.popleft()
  \<close>
\<close>

fun remove_old :: "config \<Rightarrow> rat \<Rightarrow> (string \<times> rat) list \<Rightarrow> (string \<times> rat) list" where
  "remove_old cfg current_time [] = []"
| "remove_old cfg current_time ((plate, t) # rest) =
     (if current_time - t > DUPLICATE_TIME_WINDOW cfg then remove_old cfg current_time rest
      else (plate, t) # rest)"

text \<open>\<open>for plate, _ in self.detected: if plate == plate_text: return True\<close>\<close>

fun check_duplicates :: "string \<Rightarrow> (string \<times> rat) list \<Rightarrow> bool" where
  "check_duplicates plate_text [] = False"
| "check_duplicates plate_text ((plate, t) # rest) =
     (if plate = plate_text then True else check_duplicates plate_text rest)"

definition is_duplicate ::
  "config \<Rightarrow> rat \<Rightarrow> string \<Rightarrow> (string \<times> rat) list \<Rightarrow> bool \<times> (string \<times> rat) list"
where
  "is_duplicate cfg current_time plate_text detected =
     (let detected' = remove_old cfg current_time detected in
      if check_duplicates plate_text detected' then (True, detected')
      else (False, detected' @ [(plate_text, current_time)]))"

text \<open>A run of calls \<open>(current_time, plate_text)\<close> on one manager, in order.\<close>

fun run_calls :: "config \<Rightarrow> (rat \<times> string) list \<Rightarrow> (string \<times> rat) list \<Rightarrow> (string \<times> rat) list" where
  "run_calls cfg [] detected = detected"
| "run_calls cfg ((current_time, plate_text) # calls) detected =
     run_calls cfg calls (snd (is_duplicate cfg current_time plate_text detected))"

section \<open>Performance monitor\<close>

text \<open>
  \<open>self.frame_times = deque(maxlen=config.PERFORMANCE_BUFFER_SIZE)\<close>: appending to a
  full bounded deque discards the item at the other end; with \<open>maxlen = 0\<close> nothing is
  kept.
\<close>

definition add_frame_time :: "config \<Rightarrow> rat \<Rightarrow> rat list \<Rightarrow> rat list" where
  "add_frame_time cfg duration frame_times =
     (if PERFORMANCE_BUFFER_SIZE cfg = 0 then frame_times
      else if length frame_times = PERFORMANCE_BUFFER_SIZE cfg then tl frame_times @ [duration]
      else frame_times @ [duration])"

text \<open>
  \<^verbatim>\<open>
  def get_fps(self):
      if not self.frame_times:
          return 0
      return 1.0 / (sum(self.frame_times) / len(self.frame_times))
  \<close>
  Dividing by a zero mean raises \<open>ZeroDivisionError\<close>.
\<close>

definition get_fps :: "rat list \<Rightarrow> rat outcome" where
  "get_fps frame_times =
     (if frame_times = [] then Returns 0
      else if sum_list frame_times / of_nat (length frame_times) = 0 then Raises
      else Returns (1 / (sum_list frame_times / of_nat (length frame_times))))"

fun record_all :: "config \<Rightarrow> rat list \<Rightarrow> rat list \<Rightarrow> rat list" where
  "record_all cfg [] frame_times = frame_times"
| "record_all cfg (duration # rest) frame_times =
     record_all cfg rest (add_frame_time cfg duration frame_times)"

section \<open>Data manager\<close>

text \<open>
  A row of the table \<open>plates\<close> (the auto-assigned \<open>id\<close> is left out) and a line of the
  CSV export.  The confidence column of the export is the percentage string
  \<open>f"{plate_data[2]:.2%}"\<close>; the model keeps the number it renders.
\<close>

record plate_row =
  timestamp :: string
  plate_number :: string
  confidence :: rat
  image_path :: string
  location :: string
  processing_time :: rat
  detection_method :: string

datatype csv_line = Header | Row string string rat string

text \<open>
  The two sinks: the committed rows of the database, and the export file
  (\<open>None\<close> while \<open>os.path.exists(config.CSV_FILE)\<close> is false).
\<close>

record storage =
  plates :: "plate_row list"
  csv_file :: "csv_line list option"

text \<open>
  What the outside world does to one call: whether the SQLite statements and the
  pandas write go through or raise.
\<close>

record sinks =
  db_write_ok :: bool
  csv_write_ok :: bool
  db_query_ok :: bool

text \<open>
  \<open>save_detection\<close>: the insert is committed and the connection closed before the CSV
  part starts; any exception in either part is caught and turned into \<open>False\<close>.
\<close>

definition save_detection :: "sinks \<Rightarrow> plate_row \<Rightarrow> storage \<Rightarrow> bool \<times> storage" where
  "save_detection env plate_data st =
     (if \<not> db_write_ok env then (False, st)
      else
        (let st1 = st\<lparr>plates := plates st @ [plate_data]\<rparr>;
             df = Row (timestamp plate_data) (plate_number plate_data)
                      (confidence plate_data) (image_path plate_data)
         in if \<not> csv_write_ok env then (False, st1)
            else (case csv_file st1 of
                    Some lines \<Rightarrow> (True, st1\<lparr>csv_file := Some (lines @ [df])\<rparr>)
                  | None \<Rightarrow> (True, st1\<lparr>csv_file := Some [Header, df]\<rparr>))))"

text \<open>
  SQLite's \<open>DATE(timestamp)\<close> on the timestamps this program writes
  (\<open>strftime('%Y-%m-%d %H:%M:%S')\<close>) is their first ten characters.
\<close>

definition sql_date :: "string \<Rightarrow> string" where
  "sql_date ts = take 10 ts"

text \<open>\<open>SELECT COUNT(*) FROM plates WHERE DATE(timestamp) = ?\<close>\<close>

fun count_rows :: "string \<Rightarrow> plate_row list \<Rightarrow> nat" where
  "count_rows today [] = 0"
| "count_rows today (r # rows) =
     (if sql_date (timestamp r) = today then Suc (count_rows today rows)
      else count_rows today rows)"

text \<open>\<open>SELECT COUNT(DISTINCT plate_number) FROM plates WHERE DATE(timestamp) = ?\<close>\<close>

fun distinct_plates :: "string \<Rightarrow> plate_row list \<Rightarrow> string list \<Rightarrow> string list" where
  "distinct_plates today [] seen = seen"
| "distinct_plates today (r # rows) seen =
     (if sql_date (timestamp r) = today \<and> plate_number r \<notin> set seen
      then distinct_plates today rows (seen @ [plate_number r])
      else distinct_plates today rows seen)"

text \<open>
  \<open>SELECT AVG(confidence) FROM plates WHERE DATE(timestamp) = ?\<close>, followed by
  \<open>or 0\<close>: the aggregate is NULL when no row is selected.
\<close>

fun sum_conf :: "string \<Rightarrow> plate_row list \<Rightarrow> rat" where
  "sum_conf today [] = 0"
| "sum_conf today (r # rows) =
     (if sql_date (timestamp r) = today then confidence r + sum_conf today rows
      else sum_conf today rows)"

definition avg_confidence :: "string \<Rightarrow> plate_row list \<Rightarrow> rat" where
  "avg_confidence today rows =
     (if count_rows today rows = 0 then 0
      else sum_conf today rows / of_nat (count_rows today rows))"

definition get_statistics :: "sinks \<Rightarrow> string \<Rightarrow> storage \<Rightarrow> nat \<times> nat \<times> rat" where
  "get_statistics env today st =
     (if \<not> db_query_ok env then (0, 0, 0)
      else (count_rows today (plates st),
            length (distinct_plates today (plates st) []),
            avg_confidence today (plates st)))"

section \<open>Manual save (main loop, key \<open>s\<close> or space)\<close>

text \<open>
  \<^verbatim>\<open>
  elif key in [ord('s'), 32] and len(plates) > 0:
      (x, y, w, h) = plates[0]
      plate_img = frame[y:y+h, x:x+w]
      plate_text, confidence, method = ocr_engine.extract_text(plate_img)
      if plate_text and not duplicate_mgr.is_duplicate(plate_text):
          ...
          plate_data = (timestamp.strftime('%Y-%m-%d %H:%M:%S'), plate_text, confidence,
                        img_path, 'Manual', 0, method)
          data_mgr.save_detection(plate_data)
  \<close>
  The candidate regions are given by the images cropped from the frame; the clock
  readings (\<open>time.time()\<close>, the formatted \<open>datetime.now()\<close>) and the image path are
  parameters.
\<close>

record app_state =
  detected :: "(string \<times> rat) list"
  store :: storage

definition manual_save ::
  "config \<Rightarrow> ('img \<Rightarrow> reading) \<Rightarrow> sinks \<Rightarrow> rat \<Rightarrow> string \<Rightarrow> string \<Rightarrow> 'img list
     \<Rightarrow> app_state \<Rightarrow> app_state"
where
  "manual_save cfg ocr_engine env current_time now img_path plate_imgs st =
     (case plate_imgs of
        [] \<Rightarrow> st
      | plate_img # _ \<Rightarrow>
          (case ocr_engine plate_img of (plate_text, conf, method) \<Rightarrow>
             if plate_text \<noteq> [] then
               (case is_duplicate cfg current_time plate_text (detected st) of
                  (True, detected') \<Rightarrow> st\<lparr>detected := detected'\<rparr>
                | (False, detected') \<Rightarrow>
                    st\<lparr>detected := detected',
                       store := snd (save_detection env
                         \<lparr>timestamp = now, plate_number = plate_text, confidence = conf,
                          image_path = img_path, location = ''Manual'', processing_time = 0,
                          detection_method = method\<rparr> (store st))\<rparr>)
             else st))"

text \<open>
  The automatic path of the same loop, for one candidate region that passed the area
  filter:
  \<^verbatim>\<open>
  plate_text, confidence, method = ocr_engine.extract_text(plate_img)
  if not ocr_engine.validate_plate(plate_text):
      continue
  ...
  if auto_save and confidence >= config.AUTO_SAVE_THRESHOLD:
      if not duplicate_mgr.is_duplicate(plate_text):
          ... data_mgr.save_detection(plate_data)   # origin 'Auto'
  \<close>
\<close>

definition auto_region ::
  "config \<Rightarrow> ('img \<Rightarrow> reading) \<Rightarrow> sinks \<Rightarrow> bool \<Rightarrow> rat \<Rightarrow> string \<Rightarrow> string \<Rightarrow> 'img
     \<Rightarrow> app_state \<Rightarrow> app_state"
where
  "auto_region cfg ocr_engine env auto_save current_time now img_path plate_img st =
     (case ocr_engine plate_img of (plate_text, conf, method) \<Rightarrow>
        if \<not> validate_plate cfg plate_text then st
        else if auto_save \<and> conf \<ge> AUTO_SAVE_THRESHOLD cfg then
          (case is_duplicate cfg current_time plate_text (detected st) of
             (True, detected') \<Rightarrow> st\<lparr>detected := detected'\<rparr>
           | (False, detected') \<Rightarrow>
               st\<lparr>detected := detected',
                  store := snd (save_detection env
                    \<lparr>timestamp = now, plate_number = plate_text, confidence = conf,
                     image_path = img_path, location = ''Auto'', processing_time = 0,
                     detection_method = method\<rparr> (store st))\<rparr>)
        else st)"

section \<open>The specification's reading of fusion and of the daily statistics\<close>

text \<open>
  The specification's wording of error recovery in fusion: a combination that raises is
  skipped, and every other combination of every variant still contributes its reading.
  The definitions below follow that wording, to be compared with the loops above.
\<close>

definition spec_variant_readings ::
  "config \<Rightarrow> ('pimg \<Rightarrow> string \<Rightarrow> ocr_data outcome) \<Rightarrow> string \<Rightarrow> 'pimg \<Rightarrow> reading list"
where
  "spec_variant_readings cfg image_to_data method_name processed =
     concat (map (\<lambda>psm_config.
        case combination cfg image_to_data method_name processed psm_config of
          Returns (Some r) \<Rightarrow> [r] | _ \<Rightarrow> [])
       [OCR_CONFIG_PSM7 cfg, OCR_CONFIG_PSM8 cfg])"

definition spec_results ::
  "config \<Rightarrow> ('img, 'pimg) preprocessor \<Rightarrow> ('pimg \<Rightarrow> string \<Rightarrow> ocr_data outcome) \<Rightarrow> 'img
     \<Rightarrow> reading list"
where
  "spec_results cfg pre image_to_data plate_img =
     concat (map (\<lambda>(method_name, method_func).
        case method_func plate_img of
          Raises \<Rightarrow> []
        | Returns processed \<Rightarrow> spec_variant_readings cfg image_to_data method_name processed)
       (methods pre))"

text \<open>
  What the loops do instead: within one variant, the readings of the configurations
  that come before the first one that raises.
\<close>

fun readings_until_raise :: "reading option outcome list \<Rightarrow> reading list" where
  "readings_until_raise [] = []"
| "readings_until_raise (Raises # rest) = []"
| "readings_until_raise (Returns None # rest) = readings_until_raise rest"
| "readings_until_raise (Returns (Some r) # rest) = r # readings_until_raise rest"

definition variant_readings ::
  "config \<Rightarrow> ('pimg \<Rightarrow> string \<Rightarrow> ocr_data outcome) \<Rightarrow> 'img
     \<Rightarrow> string \<times> ('img \<Rightarrow> 'pimg outcome) \<Rightarrow> reading list"
where
  "variant_readings cfg image_to_data plate_img m =
     (case snd m plate_img of
        Raises \<Rightarrow> []
      | Returns processed \<Rightarrow>
          readings_until_raise
            (map (combination cfg image_to_data (fst m) processed)
               [OCR_CONFIG_PSM7 cfg, OCR_CONFIG_PSM8 cfg]))"

text \<open>
  The daily statistics in the specification's words: the records of the current day,
  their number, the number of distinct plate texts among them, and their mean
  confidence.
\<close>

definition todays_rows :: "string \<Rightarrow> plate_row list \<Rightarrow> plate_row list" where
  "todays_rows today rows = filter (\<lambda>r. sql_date (timestamp r) = today) rows"

definition spec_daily_statistics :: "string \<Rightarrow> plate_row list \<Rightarrow> nat \<times> nat \<times> rat" where
  "spec_daily_statistics today rows =
     (let rs = todays_rows today rows in
      (length rs,
       card (set (map plate_number rs)),
       if rs = [] then 0 else sum_list (map confidence rs) / of_nat (length rs)))"

text \<open>
  A combination gives no reading when the OCR call raises, when the token loop raises,
  or when the cleaned text is empty or shorter than the minimum plate length.
\<close>

definition no_reading ::
  "config \<Rightarrow> ('pimg \<Rightarrow> string \<Rightarrow> ocr_data outcome) \<Rightarrow> 'pimg \<Rightarrow> string \<Rightarrow> bool"
where
  "no_reading cfg image_to_data processed psm_config =
     (case image_to_data processed psm_config of
        Raises \<Rightarrow> True
      | Returns data \<Rightarrow>
          (case collect_tokens (data_text data) (data_conf data) 0 [] [] of
             Raises \<Rightarrow> True
           | Returns (text, confidences) \<Rightarrow>
               clean_text text = [] \<or> length (clean_text text) < MIN_PLATE_LENGTH cfg))"

text \<open>
  Every combination of every variant gives no reading; a variant whose preprocessing
  raises has all its combinations raise.
\<close>

definition all_combinations_unusable ::
  "config \<Rightarrow> ('img, 'pimg) preprocessor \<Rightarrow> ('pimg \<Rightarrow> string \<Rightarrow> ocr_data outcome) \<Rightarrow> 'img
     \<Rightarrow> bool"
where
  "all_combinations_unusable cfg pre image_to_data plate_img =
     list_all (\<lambda>m.
        case snd m plate_img of
          Raises \<Rightarrow> True
        | Returns processed \<Rightarrow>
            list_all (no_reading cfg image_to_data processed)
              [OCR_CONFIG_PSM7 cfg, OCR_CONFIG_PSM8 cfg])
       (methods pre)"

section \<open>Concrete collaborators used in the examples\<close>

text \<open>
  Regions are of type \<open>unit\<close>; a preprocessed image is represented by the name of the
  variant that produced it.
\<close>

definition pre_ok :: "(unit, string) preprocessor" where
  "pre_ok =
     \<lparr> adaptive_threshold = (\<lambda>_. Returns ''adaptive''),
       otsu_threshold = (\<lambda>_. Returns ''otsu''),
       clahe_enhance = (\<lambda>_. Returns ''clahe'') \<rparr>"

definition pre_adaptive_raises :: "(unit, string) preprocessor" where
  "pre_adaptive_raises =
     \<lparr> adaptive_threshold = (\<lambda>_. Raises),
       otsu_threshold = (\<lambda>_. Returns ''otsu''),
       clahe_enhance = (\<lambda>_. Returns ''clahe'') \<rparr>"


text \<open>
  The OCR engine raises on the Adaptive image under PSM 7 and reads a plate from the
  same image under PSM 8; the other variants read nothing.
\<close>

definition ocr_first_config_raises :: "string \<Rightarrow> string \<Rightarrow> ocr_data outcome" where
  "ocr_first_config_raises processed psm_config =
     (if processed = ''adaptive'' then
        (if psm_config = OCR_CONFIG_PSM7 default_config then Raises
         else Returns \<lparr>data_text = [''AB1234''], data_conf = [90]\<rparr>)
      else Returns \<lparr>data_text = [], data_conf = []\<rparr>)"

text \<open>The OCR engine raises on the Otsu image and reads two characters elsewhere.\<close>

definition ocr_nothing_usable :: "string \<Rightarrow> string \<Rightarrow> ocr_data outcome" where
  "ocr_nothing_usable processed psm_config =
     (if processed = ''otsu'' then Raises
      else Returns \<lparr>data_text = ['' ab ''], data_conf = [70]\<rparr>)"

text \<open>The OCR engine reads eleven characters from the Otsu image under PSM 7.\<close>

definition ocr_long_text :: "string \<Rightarrow> string \<Rightarrow> ocr_data outcome" where
  "ocr_long_text processed psm_config =
     (if processed = ''otsu'' \<and> psm_config = OCR_CONFIG_PSM7 default_config
      then Returns \<lparr>data_text = [''ABCDEFGHIJK''], data_conf = [90]\<rparr>
      else Returns \<lparr>data_text = [], data_conf = []\<rparr>)"

definition all_ok :: sinks where
  "all_ok = \<lparr>db_write_ok = True, csv_write_ok = True, db_query_ok = True\<rparr>"

definition export_fails :: sinks where
  "export_fails = \<lparr>db_write_ok = True, csv_write_ok = False, db_query_ok = True\<rparr>"

definition query_fails :: sinks where
  "query_fails = \<lparr>db_write_ok = True, csv_write_ok = True, db_query_ok = False\<rparr>"

definition empty_storage :: storage where
  "empty_storage = \<lparr>plates = [], csv_file = None\<rparr>"

definition row_today :: plate_row where
  "row_today =
     \<lparr>timestamp = ''2024-05-02 09:30:00'', plate_number = ''AB1234'', confidence = 9 / 10,
      image_path = ''saved_plates/plate_20240502_093000.jpg'', location = ''Auto'',
      processing_time = 0, detection_method = ''Otsu''\<rparr>"

definition row_yesterday :: plate_row where
  "row_yesterday =
     \<lparr>timestamp = ''2024-05-01 23:59:59'', plate_number = ''XY9876'', confidence = 1 / 2,
      image_path = ''saved_plates/plate_20240501_235959.jpg'', location = ''Auto'',
      processing_time = 0, detection_method = ''CLAHE''\<rparr>"

section \<open>Properties of result fusion\<close>




lemma psm_loop_append:
  "psm_loop cfg image_to_data method_name processed psm_configs results =
     results @ readings_until_raise
       (map (combination cfg image_to_data method_name processed) psm_configs)"
proof (induction psm_configs arbitrary: results)
  case Nil
  show ?case by simp
next
  case (Cons c cs)
  show ?case
  proof (cases "combination cfg image_to_data method_name processed c")
    case Raises
    then show ?thesis by simp
  next
    case (Returns r)
    then show ?thesis using Cons.IH by (cases r) simp_all
  qed
qed

lemma method_loop_append:
  "method_loop cfg image_to_data plate_img ms results =
     results @ concat (map (variant_readings cfg image_to_data plate_img) ms)"
proof (induction ms arbitrary: results)
  case Nil
  show ?case by simp
next
  case (Cons m ms)
  obtain method_name method_func where m: "m = (method_name, method_func)"
    by (cases m)
  show ?case
  proof (cases "method_func plate_img")
    case Raises
    then show ?thesis using Cons.IH m by (simp add: variant_readings_def)
  next
    case (Returns processed)
    then show ?thesis using Cons.IH m
      by (simp add: variant_readings_def psm_loop_append)
  qed
qed

lemma collect_results_concat:
  "collect_results cfg pre image_to_data plate_img =
     concat (map (variant_readings cfg image_to_data plate_img) (methods pre))"
  by (simp add: collect_results_def method_loop_append)

lemma no_reading_combination:
  "no_reading cfg image_to_data processed psm_config \<Longrightarrow>
     combination cfg image_to_data method_name processed psm_config = Raises \<or>
     combination cfg image_to_data method_name processed psm_config = Returns None"
  by (auto simp: no_reading_def combination_def reading_of_data_def Let_def
           split: outcome.splits prod.splits)

lemma readings_until_raise_empty:
  "(\<And>x. x \<in> set xs \<Longrightarrow> x = Raises \<or> x = Returns None) \<Longrightarrow> readings_until_raise xs = []"
  by (induction xs rule: readings_until_raise.induct) auto




text \<open>
  C2, as stated: a combination that raises is the only one skipped, so the second
  configuration of a variant still contributes after the first one raised.  This fails:
  with the OCR engine raising on the Adaptive image under PSM 7 and reading
  \<open>AB1234\<close> from the same image under PSM 8, the loops gather nothing, while the
  specification's reading of fusion gathers that reading.
\<close>

theorem extract_text_skips_one_combination_counterexample:
  "combination default_config ocr_first_config_raises ''Adaptive'' ''adaptive''
       (OCR_CONFIG_PSM7 default_config) = Raises \<and>
   combination default_config ocr_first_config_raises ''Adaptive'' ''adaptive''
       (OCR_CONFIG_PSM8 default_config) = Returns (Some (''AB1234'', 9 / 10, ''Adaptive'')) \<and>
   collect_results default_config pre_ok ocr_first_config_raises () = [] \<and>
   extract_text default_config pre_ok ocr_first_config_raises () = ('''', 0, ''None'') \<and>
   spec_results default_config pre_ok ocr_first_config_raises ()
     = [(''AB1234'', 9 / 10, ''Adaptive'')]"
  by code_simp

text \<open>
  C2, amended: an error in one combination abandons the rest of that preprocessing
  variant only.  The readings gathered are, for the variants Adaptive, Otsu and CLAHE in
  this order, the readings of the configurations that precede the first raising
  configuration of the variant (none when the preprocessing itself raises); readings
  gathered before the error are kept and every later variant is still evaluated.
\<close>

theorem extract_text_error_recovery:
  "collect_results cfg pre image_to_data plate_img =
     variant_readings cfg image_to_data plate_img (''Adaptive'', adaptive_threshold pre) @
     variant_readings cfg image_to_data plate_img (''Otsu'', otsu_threshold pre) @
     variant_readings cfg image_to_data plate_img (''CLAHE'', clahe_enhance pre)"
  by (simp add: collect_results_concat methods_def)

theorem extract_text_error_recovery_witness:
  "variant_readings default_config ocr_first_config_raises ()
       (''Adaptive'', adaptive_threshold pre_ok) = [] \<and>
   collect_results default_config pre_ok ocr_first_config_raises () = []"
proof -
  have a: "variant_readings default_config ocr_first_config_raises ()
       (''Adaptive'', adaptive_threshold pre_ok) = []"
    by code_simp
  have b: "variant_readings default_config ocr_first_config_raises ()
       (''Otsu'', otsu_threshold pre_ok) = []"
    by code_simp
  have c: "variant_readings default_config ocr_first_config_raises ()
       (''CLAHE'', clahe_enhance pre_ok) = []"
    by code_simp
  show ?thesis
    using extract_text_error_recovery[of default_config pre_ok ocr_first_config_raises "()"]
    by (simp add: a b c)
qed

text \<open>
  C5.  When every combination raises or yields a text that is empty or shorter than the
  minimum plate length, \<open>extract_text\<close> returns the triple (empty text, 0, \<open>None\<close>).
  Every raise of the loop body is a branch of the model, and the model returns a triple
  in each of them.
\<close>

theorem extract_text_sentinel:
  assumes "all_combinations_unusable cfg pre image_to_data plate_img"
  shows "extract_text cfg pre image_to_data plate_img = ('''', 0, ''None'')"
proof -
  have "variant_readings cfg image_to_data plate_img m = []" if m: "m \<in> set (methods pre)" for m
  proof (cases "snd m plate_img")
    case Raises
    then show ?thesis by (simp add: variant_readings_def)
  next
    case (Returns processed)
    from assms m have "case snd m plate_img of Raises \<Rightarrow> True
        | Returns processed \<Rightarrow>
            list_all (no_reading cfg image_to_data processed)
              [OCR_CONFIG_PSM7 cfg, OCR_CONFIG_PSM8 cfg]"
      unfolding all_combinations_unusable_def list_all_iff by blast
    with Returns have "no_reading cfg image_to_data processed (OCR_CONFIG_PSM7 cfg)"
      and "no_reading cfg image_to_data processed (OCR_CONFIG_PSM8 cfg)"
      by simp_all
    then have "readings_until_raise
            (map (combination cfg image_to_data (fst m) processed)
               [OCR_CONFIG_PSM7 cfg, OCR_CONFIG_PSM8 cfg]) = []"
      by (intro readings_until_raise_empty) (auto dest: no_reading_combination)
    then show ?thesis using Returns by (simp add: variant_readings_def)
  qed
  then have "collect_results cfg pre image_to_data plate_img = []"
    by (simp add: collect_results_concat)
  then show ?thesis by (simp add: extract_text_def fuse_def)
qed

theorem extract_text_sentinel_witness:
  "all_combinations_unusable default_config pre_adaptive_raises ocr_nothing_usable () \<and>
   extract_text default_config pre_adaptive_raises ocr_nothing_usable () = ('''', 0, ''None'')"
proof -
  have h: "all_combinations_unusable default_config pre_adaptive_raises ocr_nothing_usable ()"
    by code_simp
  show ?thesis using h extract_text_sentinel[OF h] by simp
qed

section \<open>Properties of plate validation\<close>

text \<open>
  What the regular expression accepts: a non-empty run of uppercase letters and digits,
  optionally followed by one final newline.
\<close>

lemma newline_not_upper_or_digit: "\<not> is_upper_or_digit newline"
  by (simp add: is_upper_or_digit_def newline_def ord_def)

lemma takeWhile_length_all: "length (takeWhile P s) = length s \<longleftrightarrow> list_all P s"
  by (induction s) auto

lemma re_match_plate_iff:
  "re_match_plate s \<longleftrightarrow>
     (s \<noteq> [] \<and> list_all is_upper_or_digit s) \<or>
     (\<exists>b. b \<noteq> [] \<and> list_all is_upper_or_digit b \<and> s = b @ [newline])"
proof
  assume "re_match_plate s"
  then obtain i where i1: "1 \<le> i" and ik: "i \<le> length (takeWhile is_upper_or_digit s)"
    and d: "dollar_at s i"
    by (auto simp: re_match_plate_def)
  have kl: "length (takeWhile is_upper_or_digit s) \<le> length s"
    by (rule length_takeWhile_le)
  from d consider "i = length s" | "Suc i = length s" "s ! i = newline"
    by (auto simp: dollar_at_def)
  then show "(s \<noteq> [] \<and> list_all is_upper_or_digit s) \<or>
     (\<exists>b. b \<noteq> [] \<and> list_all is_upper_or_digit b \<and> s = b @ [newline])"
  proof cases
    case 1
    with ik kl have "length (takeWhile is_upper_or_digit s) = length s" by simp
    then have "list_all is_upper_or_digit s" by (simp add: takeWhile_length_all)
    moreover have "s \<noteq> []" using 1 i1 by auto
    ultimately show ?thesis by blast
  next
    case 2
    have s: "s = take i s @ [newline]"
      using 2 by (metis lessI take_Suc_conv_app_nth take_all_iff order_refl)
    have "\<forall>j < i. is_upper_or_digit (s ! j)"
    proof (intro allI impI)
      fix j assume "j < i"
      then have j: "j < length (takeWhile is_upper_or_digit s)" using ik by simp
      then have "takeWhile is_upper_or_digit s ! j = s ! j" by (rule takeWhile_nth)
      moreover have "is_upper_or_digit (takeWhile is_upper_or_digit s ! j)"
        using j by (metis nth_mem set_takeWhileD)
      ultimately show "is_upper_or_digit (s ! j)" by simp
    qed
    then have "list_all is_upper_or_digit (take i s)"
      using 2 by (auto simp: list_all_iff in_set_conv_nth)
    moreover have "take i s \<noteq> []" using i1 2 by auto
    ultimately show ?thesis using s by blast
  qed
next
  assume "(s \<noteq> [] \<and> list_all is_upper_or_digit s) \<or>
     (\<exists>b. b \<noteq> [] \<and> list_all is_upper_or_digit b \<and> s = b @ [newline])"
  then consider "s \<noteq> []" "list_all is_upper_or_digit s"
    | b where "b \<noteq> []" "list_all is_upper_or_digit b" "s = b @ [newline]"
    by blast
  then show "re_match_plate s"
  proof cases
    case 1
    then have "length (takeWhile is_upper_or_digit s) = length s"
      by (simp add: takeWhile_length_all)
    moreover have "dollar_at s (length s)" by (simp add: dollar_at_def)
    moreover have "1 \<le> length s" using 1 by (cases s) auto
    ultimately show ?thesis by (auto simp: re_match_plate_def)
  next
    case 2
    have "takeWhile is_upper_or_digit s = b"
      using 2 newline_not_upper_or_digit by (simp add: list_all_iff takeWhile_append2)
    moreover have "dollar_at s (length b)" using 2 by (simp add: dollar_at_def)
    moreover have "1 \<le> length b" using 2 by (cases b) auto
    ultimately show ?thesis by (auto simp: re_match_plate_def)
  qed
qed

lemma validate_plate_iff:
  "validate_plate cfg text \<longleftrightarrow>
     MIN_PLATE_LENGTH cfg \<le> length text \<and> length text \<le> MAX_PLATE_LENGTH cfg \<and>
     ((text \<noteq> [] \<and> list_all is_upper_or_digit text) \<or>
      (\<exists>b. b \<noteq> [] \<and> list_all is_upper_or_digit b \<and> text = b @ [newline]))"
  by (auto simp: validate_plate_def re_match_plate_iff)

text \<open>
  C6.  The text \<open>ABCD\<close> followed by a newline has five characters, the last of which is
  neither an uppercase letter nor a digit, and \<open>validate_plate\<close> accepts it: \<open>$\<close>
  matches before a final newline.  The examples of the specification behave as it says.
\<close>

theorem validate_plate_accepts_trailing_newline:
  "validate_plate default_config (''ABCD'' @ [newline]) \<and>
   \<not> is_upper_or_digit newline \<and>
   validate_plate default_config ''AB123'' \<and>
   \<not> validate_plate default_config ''ab123'' \<and>
   \<not> validate_plate default_config ''AB''"
  by code_simp

section \<open>Properties of the save paths of the main loop\<close>

text \<open>
  The automatic path persists a record only for a text that passed \<open>validate_plate\<close>.
\<close>

lemma auto_region_validated:
  "plates (store (auto_region cfg ocr_engine env auto_save current_time now img_path plate_img st))
      = plates (store st) \<or>
   (\<exists>row. plates (store (auto_region cfg ocr_engine env auto_save current_time now img_path
                 plate_img st)) = plates (store st) @ [row] \<and>
          validate_plate cfg (plate_number row) \<and> location row = ''Auto'')"
  by (auto simp: auto_region_def save_detection_def Let_def
           split: prod.splits bool.splits option.splits)

text \<open>
  What the manual path appends to the table: it depends on the text being non-empty,
  on the duplicate check and on the insert going through, and on nothing else.
\<close>

lemma manual_save_plates:
  "plates (store (manual_save cfg ocr_engine env current_time now img_path plate_imgs st)) =
     (case plate_imgs of
        [] \<Rightarrow> plates (store st)
      | plate_img # _ \<Rightarrow>
          (case ocr_engine plate_img of (plate_text, conf, method) \<Rightarrow>
             if plate_text \<noteq> [] \<and> \<not> fst (is_duplicate cfg current_time plate_text (detected st))
                \<and> db_write_ok env
             then plates (store st) @
                  [\<lparr>timestamp = now, plate_number = plate_text, confidence = conf,
                    image_path = img_path, location = ''Manual'', processing_time = 0,
                    detection_method = method\<rparr>]
             else plates (store st)))"
  by (auto simp: manual_save_def save_detection_def Let_def
           split: list.splits prod.splits bool.splits option.splits)

text \<open>
  C4.  The manual path does not call \<open>validate_plate\<close>: with the first region read as
  the eleven characters \<open>ABCDEFGHIJK\<close>, which fail validation (longer than the
  maximum of ten), a manual save on an empty tracker persists the record with origin
  \<open>Manual\<close>.
\<close>

theorem manual_save_persists_unvalidated:
  "\<not> validate_plate default_config ''ABCDEFGHIJK'' \<and>
   extract_text default_config pre_ok ocr_long_text () = (''ABCDEFGHIJK'', 9 / 10, ''Otsu'') \<and>
   plates (store (manual_save default_config (extract_text default_config pre_ok ocr_long_text)
       all_ok 100 ''2024-05-02 09:30:00'' ''saved_plates/plate_20240502_093000.jpg'' [()]
       \<lparr>detected = [], store = empty_storage\<rparr>))
   = [\<lparr>timestamp = ''2024-05-02 09:30:00'', plate_number = ''ABCDEFGHIJK'',
       confidence = 9 / 10, image_path = ''saved_plates/plate_20240502_093000.jpg'',
       location = ''Manual'', processing_time = 0, detection_method = ''Otsu''\<rparr>]"
  by code_simp

section \<open>Properties of the duplicate manager\<close>

lemma check_duplicates_iff: "check_duplicates plate_text d \<longleftrightarrow> plate_text \<in> fst ` set d"
  by (induction plate_text d rule: check_duplicates.induct) auto

lemma remove_old_suffix: "\<exists>old. d = old @ remove_old cfg current_time d"
proof (induction cfg current_time d rule: remove_old.induct)
  case (1 cfg current_time)
  show ?case by simp
next
  case (2 cfg current_time plate t rest)
  show ?case
  proof (cases "current_time - t > DUPLICATE_TIME_WINDOW cfg")
    case True
    with 2 obtain old where "rest = old @ remove_old cfg current_time rest" by blast
    then have "(plate, t) # rest
        = ((plate, t) # old) @ remove_old cfg current_time ((plate, t) # rest)"
      using True by simp
    then show ?thesis by blast
  next
    case False
    then have "(plate, t) # rest = [] @ remove_old cfg current_time ((plate, t) # rest)"
      by simp
    then show ?thesis by blast
  qed
qed

lemma remove_old_distinct:
  assumes "distinct (map fst d)"
  shows "distinct (map fst (remove_old cfg current_time d))"
proof -
  obtain old where "d = old @ remove_old cfg current_time d"
    using remove_old_suffix by blast
  then have "map fst d = map fst old @ map fst (remove_old cfg current_time d)"
    by (metis map_append)
  with assms show ?thesis by (metis distinct_append)
qed

lemma is_duplicate_distinct:
  "distinct (map fst d) \<Longrightarrow>
     distinct (map fst (snd (is_duplicate cfg current_time plate_text d)))"
  by (auto simp: is_duplicate_def Let_def check_duplicates_iff dest: remove_old_distinct)

lemma run_calls_distinct:
  "distinct (map fst d) \<Longrightarrow> distinct (map fst (run_calls cfg calls d))"
proof (induction cfg calls d rule: run_calls.induct)
  case (1 cfg detected)
  then show ?case by simp
next
  case (2 cfg current_time plate_text calls detected)
  then show ?case by (simp add: is_duplicate_distinct)
qed

text \<open>
  C3.  Let the entries that remain after eviction be \<open>remove_old cfg current_time d\<close>, a
  suffix of the queue.  If one of them carries the text, \<open>is_duplicate\<close> returns true
  and the queue is exactly the remaining entries, timestamps untouched; otherwise it
  returns false and the queue is the remaining entries followed by the text with the
  current time.
\<close>

theorem is_duplicate_window:
  "(plate_text \<in> fst ` set (remove_old cfg current_time d) \<longrightarrow>
      is_duplicate cfg current_time plate_text d = (True, remove_old cfg current_time d)) \<and>
   (plate_text \<notin> fst ` set (remove_old cfg current_time d) \<longrightarrow>
      is_duplicate cfg current_time plate_text d =
        (False, remove_old cfg current_time d @ [(plate_text, current_time)])) \<and>
   (\<exists>old. d = old @ remove_old cfg current_time d)"
  using remove_old_suffix[of d cfg current_time]
  by (simp add: is_duplicate_def Let_def check_duplicates_iff)

text \<open>
  The scenario of the specification, window 5 s: recorded at t = 0, a query at t = 4 is
  a duplicate and leaves the entry at time 0, so that a query at t = 5.5 on that queue
  is no longer a duplicate; a query at t = 6 is not a duplicate and records the text at
  time 6.
\<close>

theorem is_duplicate_window_witness:
  "is_duplicate default_config 4 ''XYZ123'' [(''XYZ123'', 0)] = (True, [(''XYZ123'', 0)]) \<and>
   is_duplicate default_config (11 / 2) ''XYZ123'' [(''XYZ123'', 0)]
     = (False, [(''XYZ123'', 11 / 2)]) \<and>
   is_duplicate default_config 6 ''XYZ123'' [(''XYZ123'', 0)] = (False, [(''XYZ123'', 6)])"
  using is_duplicate_window[of "''XYZ123''" default_config 4 "[(''XYZ123'', 0)]"]
        is_duplicate_window[of "''XYZ123''" default_config "11 / 2" "[(''XYZ123'', 0)]"]
        is_duplicate_window[of "''XYZ123''" default_config 6 "[(''XYZ123'', 0)]"]
  by (simp add: default_config_def)

text \<open>
  C10.  After any sequence of \<open>is_duplicate\<close> calls on a fresh manager, whatever the
  times of the calls, no two entries of the queue carry the same text.
\<close>

theorem duplicate_manager_distinct:
  "distinct (map fst (run_calls cfg calls []))"
  by (rule run_calls_distinct) simp

theorem duplicate_manager_distinct_witness:
  "distinct (map fst (run_calls default_config
       [(0, ''XYZ123''), (4, ''XYZ123''), (6, ''XYZ123''), (7, ''AB1234'')] [])) \<and>
   run_calls default_config
       [(0, ''XYZ123''), (4, ''XYZ123''), (6, ''XYZ123''), (7, ''AB1234'')] []
     = [(''XYZ123'', 6), (''AB1234'', 7)]"
proof -
  have "run_calls default_config
       [(0, ''XYZ123''), (4, ''XYZ123''), (6, ''XYZ123''), (7, ''AB1234'')] []
     = [(''XYZ123'', 6), (''AB1234'', 7)]"
    by (simp add: is_duplicate_def default_config_def)
  then show ?thesis
    using duplicate_manager_distinct[of default_config
        "[(0, ''XYZ123''), (4, ''XYZ123''), (6, ''XYZ123''), (7, ''AB1234'')]"]
    by simp
qed

section \<open>Properties of the performance monitor\<close>

lemma record_all_drop:
  "length xs \<le> PERFORMANCE_BUFFER_SIZE cfg \<Longrightarrow>
     record_all cfg ds xs = drop (length (xs @ ds) - PERFORMANCE_BUFFER_SIZE cfg) (xs @ ds)"
proof (induction ds arbitrary: xs)
  case Nil
  then show ?case by simp
next
  case (Cons d ds)
  let ?cap = "PERFORMANCE_BUFFER_SIZE cfg"
  show ?case
  proof (cases "?cap = 0")
    case True
    then have "xs = []" using Cons.prems by simp
    then show ?thesis using True Cons.IH[of "[]"] by (simp add: add_frame_time_def)
  next
    case False
    show ?thesis
    proof (cases "length xs = ?cap")
      case True
      then obtain y ys where xs: "xs = y # ys" using False by (cases xs) auto
      have len: "length (ys @ [d]) \<le> ?cap" using True xs by simp
      have "record_all cfg (d # ds) xs = record_all cfg ds (ys @ [d])"
        using True False xs by (simp add: add_frame_time_def)
      also have "\<dots> = drop (length ((ys @ [d]) @ ds) - ?cap) ((ys @ [d]) @ ds)"
        by (rule Cons.IH[OF len])
      also have "\<dots> = drop (length (xs @ d # ds) - ?cap) (xs @ d # ds)"
        using True xs by (simp add: Suc_diff_le)
      finally show ?thesis .
    next
      case neq: False
      then have len: "length (xs @ [d]) \<le> ?cap" using Cons.prems by simp
      have "record_all cfg (d # ds) xs = record_all cfg ds (xs @ [d])"
        using neq False by (simp add: add_frame_time_def)
      also have "\<dots> = drop (length ((xs @ [d]) @ ds) - ?cap) ((xs @ [d]) @ ds)"
        by (rule Cons.IH[OF len])
      finally show ?thesis by simp
    qed
  qed
qed

text \<open>
  C9, as stated: on every non-empty window \<open>get_fps\<close> returns 1 divided by the mean of
  the samples.  This fails on a window whose mean is zero: after recording the single
  duration 0 the monitor holds that sample, and the division raises instead of
  returning a value.
\<close>

theorem get_fps_zero_mean_counterexample:
  "record_all default_config [0] [] = [0] \<and>
   get_fps (record_all default_config [0] []) = Raises \<and>
   get_fps (record_all default_config [0] [])
     \<noteq> Returns (1 / (sum_list [0] / of_nat (length [0 :: rat])))"
  by (simp add: add_frame_time_def get_fps_def default_config_def)

text \<open>
  C9, amended: starting from an empty monitor, after recording the durations \<open>ds\<close> the
  monitor holds at most \<open>PERFORMANCE_BUFFER_SIZE\<close> samples, namely the most recent ones
  (older ones are evicted); adding to a full monitor drops its oldest sample.
  \<open>get_fps\<close> returns 0 on no samples and, when the mean of the samples is not zero,
  1 divided by that mean.  With capacity 3 and the durations 0.1, 0.1, 0.1, 0.2 the
  result is 7.5.
\<close>

theorem performance_monitor_window:
  "length (record_all cfg ds []) \<le> PERFORMANCE_BUFFER_SIZE cfg \<and>
   record_all cfg ds [] = drop (length ds - PERFORMANCE_BUFFER_SIZE cfg) ds \<and>
   (length ys = PERFORMANCE_BUFFER_SIZE cfg \<and> 0 < PERFORMANCE_BUFFER_SIZE cfg \<longrightarrow>
      add_frame_time cfg d ys = tl ys @ [d]) \<and>
   get_fps [] = Returns 0 \<and>
   (xs \<noteq> [] \<and> sum_list xs / of_nat (length xs) \<noteq> 0 \<longrightarrow>
      get_fps xs = Returns (1 / (sum_list xs / of_nat (length xs)))) \<and>
   get_fps (record_all (cfg\<lparr>PERFORMANCE_BUFFER_SIZE := 3\<rparr>) [1 / 10, 1 / 10, 1 / 10, 2 / 10] [])
     = Returns (15 / 2)"
proof -
  have a: "record_all cfg ds [] = drop (length ds - PERFORMANCE_BUFFER_SIZE cfg) ds"
    using record_all_drop[of "[]" cfg ds] by simp
  have b: "length (record_all cfg ds []) \<le> PERFORMANCE_BUFFER_SIZE cfg"
    unfolding a by simp
  have c: "get_fps (record_all (cfg\<lparr>PERFORMANCE_BUFFER_SIZE := 3\<rparr>)
              [1 / 10, 1 / 10, 1 / 10, 2 / 10] []) = Returns (15 / 2)"
    by (simp add: add_frame_time_def get_fps_def)
  have e: "length ys = PERFORMANCE_BUFFER_SIZE cfg \<and> 0 < PERFORMANCE_BUFFER_SIZE cfg \<longrightarrow>
      add_frame_time cfg d ys = tl ys @ [d]"
    by (simp add: add_frame_time_def)
  have f: "xs \<noteq> [] \<and> sum_list xs / of_nat (length xs) \<noteq> 0 \<longrightarrow>
      get_fps xs = Returns (1 / (sum_list xs / of_nat (length xs)))"
    by (simp add: get_fps_def)
  have g: "get_fps [] = Returns 0"
    by (simp add: get_fps_def)
  show ?thesis using a b c e f g by blast
qed

theorem performance_monitor_window_witness:
  "record_all (default_config\<lparr>PERFORMANCE_BUFFER_SIZE := 3\<rparr>)
       [1 / 10, 1 / 10, 1 / 10, 2 / 10] [] = [1 / 10, 1 / 10, 2 / 10] \<and>
   add_frame_time (default_config\<lparr>PERFORMANCE_BUFFER_SIZE := 3\<rparr>) (2 / 10)
       [1 / 10, 1 / 10, 1 / 10] = [1 / 10, 1 / 10, 2 / 10] \<and>
   get_fps [1 / 10, 1 / 10, 2 / 10] = Returns (15 / 2)"
  using performance_monitor_window[of "default_config\<lparr>PERFORMANCE_BUFFER_SIZE := 3\<rparr>"
          "[1 / 10, 1 / 10, 1 / 10, 2 / 10]" "[1 / 10, 1 / 10, 1 / 10]" "2 / 10"
          "[1 / 10, 1 / 10, 2 / 10]"]
  by simp

section \<open>Properties of the data manager\<close>

lemma count_rows_todays: "count_rows today rows = length (todays_rows today rows)"
  by (induction rows) (simp_all add: todays_rows_def)

lemma sum_conf_todays:
  "sum_conf today rows = sum_list (map confidence (todays_rows today rows))"
  by (induction rows) (simp_all add: todays_rows_def)

lemma distinct_plates_set:
  "set (distinct_plates today rows seen) =
     set seen \<union> set (map plate_number (todays_rows today rows))"
  by (induction rows arbitrary: seen) (auto simp: todays_rows_def)

lemma distinct_plates_distinct:
  "distinct seen \<Longrightarrow> distinct (distinct_plates today rows seen)"
  by (induction rows arbitrary: seen) simp_all

lemma distinct_plates_card:
  "length (distinct_plates today rows []) =
     card (set (map plate_number (todays_rows today rows)))"
proof -
  have "distinct (distinct_plates today rows [])"
    by (rule distinct_plates_distinct) simp
  then have "length (distinct_plates today rows []) = card (set (distinct_plates today rows []))"
    by (simp add: distinct_card)
  then show ?thesis by (simp add: distinct_plates_set)
qed

lemma todays_rows_idem: "todays_rows today (todays_rows today rows) = todays_rows today rows"
  by (simp add: todays_rows_def)

lemma query_eq_spec:
  "(count_rows today rows, length (distinct_plates today rows []), avg_confidence today rows)
     = spec_daily_statistics today rows"
  by (simp add: spec_daily_statistics_def Let_def avg_confidence_def count_rows_todays
        sum_conf_todays distinct_plates_card)

lemma count_rows_append:
  "count_rows today (rows @ [r]) =
     (if sql_date (timestamp r) = today then Suc (count_rows today rows)
      else count_rows today rows)"
  by (induction rows) simp_all

text \<open>
  C7.  When the insert goes through and the export write fails, \<open>save_detection\<close>
  returns false, the row is in the table and the export file is as before; if the row
  is dated today, the total of a following statistics query that goes through is one
  more than before.  The result is a value in every case: nothing is raised.
\<close>

theorem save_detection_export_failure:
  assumes "db_write_ok env" and "\<not> csv_write_ok env"
  shows "save_detection env r st = (False, st\<lparr>plates := plates st @ [r]\<rparr>) \<and>
     (db_query_ok env \<and> sql_date (timestamp r) = today \<longrightarrow>
        fst (get_statistics env today (snd (save_detection env r st)))
          = Suc (fst (get_statistics env today st)))"
  using assms by (simp add: save_detection_def Let_def get_statistics_def count_rows_append)

theorem save_detection_export_failure_witness:
  "db_write_ok export_fails \<and> \<not> csv_write_ok export_fails \<and>
   save_detection export_fails row_today empty_storage
     = (False, \<lparr>plates = [row_today], csv_file = None\<rparr>) \<and>
   fst (get_statistics export_fails ''2024-05-02''
          (snd (save_detection export_fails row_today empty_storage))) = 1"
proof -
  have a: "db_write_ok export_fails" and b: "\<not> csv_write_ok export_fails"
    and c: "db_query_ok export_fails"
    by (simp_all add: export_fails_def)
  have d: "sql_date (timestamp row_today) = ''2024-05-02''"
    by (simp add: sql_date_def row_today_def)
  have e: "fst (get_statistics export_fails ''2024-05-02'' empty_storage) = 0"
    by (simp add: get_statistics_def empty_storage_def)
  note export_failure =
    save_detection_export_failure[OF a b, of row_today empty_storage "''2024-05-02''"]
  from export_failure have s: "save_detection export_fails row_today empty_storage
      = (False, empty_storage\<lparr>plates := plates empty_storage @ [row_today]\<rparr>)"
    by blast
  from export_failure c d
  have "fst (get_statistics export_fails ''2024-05-02''
          (snd (save_detection export_fails row_today empty_storage)))
      = Suc (fst (get_statistics export_fails ''2024-05-02'' empty_storage))"
    by blast
  with e have n: "fst (get_statistics export_fails ''2024-05-02''
          (snd (save_detection export_fails row_today empty_storage))) = 1"
    by simp
  show ?thesis
  proof (intro conjI)
    show "db_write_ok export_fails" by (rule a)
    show "\<not> csv_write_ok export_fails" by (rule b)
    show "save_detection export_fails row_today empty_storage
        = (False, \<lparr>plates = [row_today], csv_file = None\<rparr>)"
      unfolding s by (simp add: empty_storage_def)
    show "fst (get_statistics export_fails ''2024-05-02''
          (snd (save_detection export_fails row_today empty_storage))) = 1"
      by (rule n)
  qed
qed

text \<open>
  C8.  When the query goes through, \<open>get_statistics\<close> returns the number of today's
  rows, the number of distinct plate texts among them and their mean confidence (0 when
  there are none); rows of other days do not change the result.  When the query fails
  it returns (0, 0, 0).  It returns a value in every case.
\<close>

theorem get_statistics_today_only:
  "get_statistics env today st =
     (if db_query_ok env then spec_daily_statistics today (plates st) else (0, 0, 0)) \<and>
   get_statistics env today st =
     get_statistics env today (st\<lparr>plates := todays_rows today (plates st)\<rparr>)"
proof -
  have a: "get_statistics env today s =
     (if db_query_ok env then spec_daily_statistics today (plates s) else (0, 0, 0))" for s
    using query_eq_spec[of today "plates s"] by (simp add: get_statistics_def)
  have "spec_daily_statistics today (todays_rows today (plates st)) =
        spec_daily_statistics today (plates st)"
    by (simp add: spec_daily_statistics_def todays_rows_idem)
  then show ?thesis by (simp add: a)
qed

theorem get_statistics_today_only_witness:
  "get_statistics all_ok ''2024-05-02'' \<lparr>plates = [row_yesterday, row_today], csv_file = None\<rparr>
     = (1, 1, 9 / 10) \<and>
   get_statistics all_ok ''2024-05-02'' \<lparr>plates = [row_today], csv_file = None\<rparr>
     = (1, 1, 9 / 10) \<and>
   get_statistics export_fails ''2024-05-02'' \<lparr>plates = [row_yesterday], csv_file = None\<rparr>
     = (0, 0, 0) \<and>
   get_statistics query_fails ''2024-05-02'' \<lparr>plates = [row_today], csv_file = None\<rparr>
     = (0, 0, 0)"
proof -
  have t: "todays_rows ''2024-05-02'' [row_yesterday, row_today] = [row_today]"
    by (simp add: todays_rows_def sql_date_def row_today_def row_yesterday_def)
  have s: "spec_daily_statistics ''2024-05-02'' [row_today] = (1, 1, 9 / 10)"
    by (simp add: spec_daily_statistics_def todays_rows_def sql_date_def row_today_def)
  have y: "spec_daily_statistics ''2024-05-02'' [row_yesterday] = (0, 0, 0)"
    by (simp add: spec_daily_statistics_def todays_rows_def sql_date_def row_yesterday_def)
  have s2: "spec_daily_statistics ''2024-05-02'' [row_yesterday, row_today] = (1, 1, 9 / 10)"
    by (simp add: spec_daily_statistics_def todays_rows_def sql_date_def row_today_def
          row_yesterday_def)
  have q: "db_query_ok all_ok" "db_query_ok export_fails" "\<not> db_query_ok query_fails"
    by (simp_all add: all_ok_def export_fails_def query_fails_def)
  show ?thesis
    using get_statistics_today_only[of all_ok "''2024-05-02''"
            "\<lparr>plates = [row_yesterday, row_today], csv_file = None\<rparr>"]
          get_statistics_today_only[of all_ok "''2024-05-02''"
            "\<lparr>plates = [row_today], csv_file = None\<rparr>"]
          get_statistics_today_only[of export_fails "''2024-05-02''"
            "\<lparr>plates = [row_yesterday], csv_file = None\<rparr>"]
          get_statistics_today_only[of query_fails "''2024-05-02''"
            "\<lparr>plates = [row_today], csv_file = None\<rparr>"]
    by (simp add: t s s2 y q)
qed

end
